theory Spec2Isabelle
  imports Main
begin

section \<open>The example-spreadsheet builder\<close>

text \<open>
  The repository is one script, \<^verbatim>\<open>create_example_excel.py\<close>. It builds a workbook in
  memory through a spreadsheet-authoring library, creates the output directory, saves the
  workbook and prints a summary. The embedding has three layers:
  \<^item> the objects of the authoring library that the script touches (fonts, fills, cells,
    worksheets, defined names, the workbook) as records, and the library calls of the
    script as functions on them;
  \<^item> the file system and standard output as explicit state;
  \<^item> the script itself, statement by statement, in the order of the source.
  Every statement that can raise returns a sum, \<open>Inl\<close> carrying the exception.
\<close>

subsection \<open>Exceptions\<close>

datatype error =
    CellCoordinatesException
  | ValueError
  | IndexError
  | FileExistsError
  | FileNotFoundError
  | NotADirectoryError
  | IsADirectoryError
  | PermissionError
  | UnicodeEncodeError
  | OSError

definition bind_result :: "error + 'a \<Rightarrow> ('a \<Rightarrow> error + 'b) \<Rightarrow> error + 'b" where
  "bind_result r f = (case r of Inl e \<Rightarrow> Inl e | Inr a \<Rightarrow> f a)"

subsection \<open>Styles and cells\<close>

text \<open>
  \<^verbatim>\<open>Font(bold=True)\<close> and \<^verbatim>\<open>PatternFill(start_color=..., end_color=..., fill_type=...)\<close>:
  the keyword arguments the script passes are the fields; an argument that is not passed
  keeps the constructor's default (\<open>bold\<close> false, no fill type, colour \<open>00000000\<close>).
  A colour is stored as eight hexadecimal digits, alpha first: the library takes six or
  eight such digits, puts \<open>00\<close> in front of six, and raises on anything else.
\<close>

record Font =
  bold :: bool

record PatternFill =
  start_color :: string
  end_color :: string
  fill_type :: "string option"

definition Font_init :: "bool \<Rightarrow> Font" where
  "Font_init b = \<lparr>bold = b\<rparr>"

definition is_hex :: "char \<Rightarrow> bool" where
  "is_hex c = (c \<in> set ''0123456789ABCDEFabcdef'')"

definition rgb :: "string \<Rightarrow> error + string" where
  "rgb v =
     (if list_all is_hex v \<and> length v = 6 then Inr (''00'' @ v)
      else if list_all is_hex v \<and> length v = 8 then Inr v
      else Inl ValueError)"

definition PatternFill_init :: "string \<Rightarrow> string \<Rightarrow> string \<Rightarrow> error + PatternFill" where
  "PatternFill_init sc ec ft =
     bind_result (rgb sc) (\<lambda>fg.
     bind_result (rgb ec) (\<lambda>bg.
       Inr \<lparr>start_color = fg, end_color = bg, fill_type = Some ft\<rparr>))"

definition default_font :: Font where
  "default_font = \<lparr>bold = False\<rparr>"

definition default_fill :: PatternFill where
  "default_fill = \<lparr>start_color = ''00000000'', end_color = ''00000000'', fill_type = None\<rparr>"

record Cell =
  cell_value :: "string option"
  font :: Font
  fill :: PatternFill

definition new_cell :: Cell where
  "new_cell = \<lparr>cell_value = None, font = default_font, fill = default_fill\<rparr>"

subsection \<open>Cell coordinates\<close>

text \<open>
  The script addresses cells by strings such as \<^verbatim>\<open>'A1'\<close> and \<^verbatim>\<open>col + '4'\<close>. The library
  reads such a key as an optional \<open>$\<close>, one to three letters, an optional \<open>$\<close> and a row
  number that is not zero, and stores the cell under the pair of the upper-case column
  and the row; any other key raises.
\<close>

definition is_letter :: "char \<Rightarrow> bool" where
  "is_letter c = (c \<in> set ''ABCDEFGHIJKLMNOPQRSTUVWXYZabcdefghijklmnopqrstuvwxyz'')"

definition is_digit :: "char \<Rightarrow> bool" where
  "is_digit c = (c \<in> set ''0123456789'')"

definition upper :: "char \<Rightarrow> char" where
  "upper c = (if c \<in> set ''abcdefghijklmnopqrstuvwxyz''
              then char_of (of_char c - (32::nat)) else c)"

definition digit_value :: "char \<Rightarrow> nat" where
  "digit_value c = of_char c - 48"

definition int_of_digits :: "string \<Rightarrow> nat" where
  "int_of_digits ds = foldl (\<lambda>n c. 10 * n + digit_value c) 0 ds"

definition strip_dollar :: "string \<Rightarrow> string" where
  "strip_dollar s = (case s of [] \<Rightarrow> [] | c # r \<Rightarrow> if c = CHR ''$'' then r else s)"

type_synonym coordinate = "string \<times> nat"

definition coordinate_from_string :: "string \<Rightarrow> error + coordinate" where
  "coordinate_from_string s =
     (let s1 = strip_dollar s;
          col = takeWhile is_letter s1;
          row = strip_dollar (dropWhile is_letter s1)
      in if col = [] \<or> 3 < length col \<or> row = [] \<or> \<not> list_all is_digit row
         then Inl CellCoordinatesException
         else if int_of_digits row = 0 then Inl CellCoordinatesException
         else Inr (map upper col, int_of_digits row))"

subsection \<open>Worksheets\<close>

record Worksheet =
  title :: string
  cells :: "coordinate \<rightharpoonup> Cell"
  column_dimensions :: "string \<rightharpoonup> int"

definition Worksheet_init :: "string \<Rightarrow> Worksheet" where
  "Worksheet_init t = \<lparr>title = t, cells = Map.empty, column_dimensions = Map.empty\<rparr>"

text \<open>\<^verbatim>\<open>sheet[key]\<close> returns the cell at the key, creating an empty one when there is none.\<close>

definition get_cell :: "Worksheet \<Rightarrow> coordinate \<Rightarrow> Cell" where
  "get_cell ws rc = (case cells ws rc of None \<Rightarrow> new_cell | Some c \<Rightarrow> c)"

text \<open>\<^verbatim>\<open>sheet[key] = v\<close>\<close>

definition ws_setitem :: "string \<Rightarrow> string \<Rightarrow> Worksheet \<Rightarrow> error + Worksheet" where
  "ws_setitem key v ws =
     bind_result (coordinate_from_string key) (\<lambda>rc.
       Inr (ws\<lparr>cells := (cells ws)(rc \<mapsto> (get_cell ws rc)\<lparr>cell_value := Some v\<rparr>)\<rparr>))"

text \<open>\<^verbatim>\<open>sheet[key].font = f\<close>\<close>

definition ws_set_font :: "string \<Rightarrow> Font \<Rightarrow> Worksheet \<Rightarrow> error + Worksheet" where
  "ws_set_font key f ws =
     bind_result (coordinate_from_string key) (\<lambda>rc.
       Inr (ws\<lparr>cells := (cells ws)(rc \<mapsto> (get_cell ws rc)\<lparr>font := f\<rparr>)\<rparr>))"

text \<open>\<^verbatim>\<open>sheet[key].fill = p\<close>\<close>

definition ws_set_fill :: "string \<Rightarrow> PatternFill \<Rightarrow> Worksheet \<Rightarrow> error + Worksheet" where
  "ws_set_fill key p ws =
     bind_result (coordinate_from_string key) (\<lambda>rc.
       Inr (ws\<lparr>cells := (cells ws)(rc \<mapsto> (get_cell ws rc)\<lparr>fill := p\<rparr>)\<rparr>))"

text \<open>\<^verbatim>\<open>sheet.title = t\<close>\<close>

definition ws_set_title :: "string \<Rightarrow> Worksheet \<Rightarrow> error + Worksheet" where
  "ws_set_title t ws = Inr (ws\<lparr>title := t\<rparr>)"

text \<open>\<^verbatim>\<open>sheet.column_dimensions[col].width = w\<close>: the dimension is created on first access.\<close>

definition ws_set_width :: "string \<Rightarrow> int \<Rightarrow> Worksheet \<Rightarrow> error + Worksheet" where
  "ws_set_width col w ws = Inr (ws\<lparr>column_dimensions := (column_dimensions ws)(col \<mapsto> w)\<rparr>)"

subsection \<open>Defined names\<close>

text \<open>
  The constructor of a defined name takes its parameters in the library's order: the
  name first, the comment second; the reference text \<open>attr_text\<close> is a later parameter
  and stays unset unless it is passed by keyword. The script passes two positional
  arguments.
\<close>

record DefinedName =
  name :: string
  comment :: "string option"
  attr_text :: "string option"

definition DefinedName_init :: "string \<Rightarrow> string \<Rightarrow> DefinedName" where
  "DefinedName_init n c = \<lparr>name = n, comment = Some c, attr_text = None\<rparr>"

text \<open>
  What a defined name resolves to. A reference to cells of a sheet is the sheet title,
  between single quotes or bare, an exclamation mark, and one absolute cell
  (\<open>$\<close> column \<open>$\<close> row) or two of them joined by a colon; a single cell is the area from
  that cell to itself. The reference of a defined name is its \<open>attr_text\<close>; a defined
  name without one resolves to nothing.
\<close>

definition absolute_coordinate :: "string \<Rightarrow> coordinate option" where
  "absolute_coordinate s =
     (case s of
        [] \<Rightarrow> None
      | c # r \<Rightarrow>
          if c = CHR ''$'' then
            (let col = takeWhile is_letter r in
             case dropWhile is_letter r of
               [] \<Rightarrow> None
             | d # row \<Rightarrow>
                 if d = CHR ''$'' \<and> col \<noteq> [] \<and> length col \<le> 3 \<and> row \<noteq> []
                    \<and> list_all is_digit row \<and> 0 < int_of_digits row
                 then Some (map upper col, int_of_digits row)
                 else None)
          else None)"

definition split_sheet :: "string \<Rightarrow> (string \<times> string) option" where
  "split_sheet s =
     (case s of
        [] \<Rightarrow> None
      | c # r \<Rightarrow>
          if c = CHR 0x27 then
            (let t = takeWhile (\<lambda>x. x \<noteq> CHR 0x27) r;
                 rest = dropWhile (\<lambda>x. x \<noteq> CHR 0x27) r
             in if take 2 rest = [CHR 0x27, CHR ''!''] then Some (t, drop 2 rest) else None)
          else
            (let t = takeWhile (\<lambda>x. x \<noteq> CHR ''!'') s;
                 rest = dropWhile (\<lambda>x. x \<noteq> CHR ''!'') s
             in if t = [] \<or> CHR 0x27 \<in> set t \<or> CHR '' '' \<in> set t \<or> rest = [] then None
                else Some (t, tl rest)))"

type_synonym area = "string \<times> coordinate \<times> coordinate"

definition parse_reference :: "string \<Rightarrow> area option" where
  "parse_reference s =
     (case split_sheet s of
        None \<Rightarrow> None
      | Some (sheet, cellpart) \<Rightarrow>
          (let a = takeWhile (\<lambda>x. x \<noteq> CHR '':'') cellpart;
               b = dropWhile (\<lambda>x. x \<noteq> CHR '':'') cellpart
           in case absolute_coordinate a of
                None \<Rightarrow> None
              | Some c1 \<Rightarrow>
                  (case b of
                     [] \<Rightarrow> Some (sheet, c1, c1)
                   | colon # b' \<Rightarrow>
                       (case absolute_coordinate b' of
                          None \<Rightarrow> None
                        | Some c2 \<Rightarrow> Some (sheet, c1, c2)))))"

definition destination :: "DefinedName \<Rightarrow> area option" where
  "destination dn = (case attr_text dn of None \<Rightarrow> None | Some t \<Rightarrow> parse_reference t)"

text \<open>
  \<^verbatim>\<open>wb.defined_names\<close> is a dictionary. A Python dictionary keeps its keys in insertion
  order; assigning to a key that is present replaces the value in place.
\<close>

type_synonym 'v dict = "(string \<times> 'v) list"

fun dict_set :: "'v dict \<Rightarrow> string \<Rightarrow> 'v \<Rightarrow> 'v dict" where
  "dict_set [] k v = [(k, v)]"
| "dict_set ((k', v') # kvs) k v =
     (if k' = k then (k, v) # kvs else (k', v') # dict_set kvs k v)"

fun dict_get :: "'v dict \<Rightarrow> string \<Rightarrow> 'v option" where
  "dict_get [] k = None"
| "dict_get ((k', v') # kvs) k = (if k' = k then Some v' else dict_get kvs k)"

definition dict_keys :: "'v dict \<Rightarrow> string list" where
  "dict_keys d = map fst d"

text \<open>
  \<^verbatim>\<open>wb.defined_names[key] = dn\<close>: the dictionary of defined names refuses a value whose
  name is not the key, and otherwise stores it as any dictionary does.
\<close>

definition defined_names_setitem ::
  "DefinedName dict \<Rightarrow> string \<Rightarrow> DefinedName \<Rightarrow> error + DefinedName dict" where
  "defined_names_setitem d key dn =
     (if name dn = key then Inr (dict_set d key dn) else Inl ValueError)"

subsection \<open>The workbook\<close>

record Workbook =
  worksheets :: "Worksheet list"
  active :: nat
  defined_names :: "DefinedName dict"

text \<open>\<^verbatim>\<open>Workbook()\<close>: one sheet, titled \<open>Sheet\<close>, which is the active one.\<close>

definition Workbook_init :: Workbook where
  "Workbook_init = \<lparr>worksheets = [Worksheet_init ''Sheet''], active = 0, defined_names = []\<rparr>"

text \<open>
  \<^verbatim>\<open>sheet = wb.active\<close> binds \<open>sheet\<close> to the worksheet object inside the workbook, so a
  statement on \<open>sheet\<close> changes the workbook. The model keeps the position of that
  worksheet and applies the statement there.
\<close>

definition on_sheet :: "nat \<Rightarrow> (Worksheet \<Rightarrow> error + Worksheet) \<Rightarrow> Workbook \<Rightarrow> error + Workbook" where
  "on_sheet i f wb =
     (if i < length (worksheets wb)
      then bind_result (f (worksheets wb ! i)) (\<lambda>ws. Inr (wb\<lparr>worksheets := (worksheets wb)[i := ws]\<rparr>))
      else Inl IndexError)"

definition register_name :: "string \<Rightarrow> DefinedName \<Rightarrow> Workbook \<Rightarrow> error + Workbook" where
  "register_name key dn wb =
     bind_result (defined_names_setitem (defined_names wb) key dn) (\<lambda>d.
       Inr (wb\<lparr>defined_names := d\<rparr>))"

subsection \<open>The script: building the workbook (lines 12 to 50)\<close>

text \<open>The loop of lines 31 to 33, over the column letters.\<close>

fun style_table_header :: "nat \<Rightarrow> string list \<Rightarrow> Workbook \<Rightarrow> error + Workbook" where
  "style_table_header sheet [] wb = Inr wb"
| "style_table_header sheet (col # cols) wb =
     bind_result (on_sheet sheet (ws_set_font (col @ ''4'') (Font_init True)) wb) (\<lambda>wb.
     bind_result (PatternFill_init ''CCCCCC'' ''CCCCCC'' ''solid'') (\<lambda>p.
     bind_result (on_sheet sheet (ws_set_fill (col @ ''4'') p) wb) (\<lambda>wb.
     style_table_header sheet cols wb)))"

definition build_workbook :: "error + Workbook" where
  "build_workbook =
     (let wb = Workbook_init; sheet = active wb in
      bind_result (on_sheet sheet (ws_set_title ''Sheet1'') wb) (\<lambda>wb.
      bind_result (on_sheet sheet (ws_setitem ''A1'' ''Customer Name'') wb) (\<lambda>wb.
      bind_result (on_sheet sheet (ws_setitem ''B1'' ''Date'') wb) (\<lambda>wb.
      bind_result (on_sheet sheet (ws_set_font ''A1'' (Font_init True)) wb) (\<lambda>wb.
      bind_result (on_sheet sheet (ws_set_font ''B1'' (Font_init True)) wb) (\<lambda>wb.
      bind_result (on_sheet sheet (ws_setitem ''A2'' ''${customerName}'') wb) (\<lambda>wb.
      bind_result (on_sheet sheet (ws_setitem ''B2'' ''${orderDate}'') wb) (\<lambda>wb.
      bind_result (on_sheet sheet (ws_setitem ''A4'' ''Item'') wb) (\<lambda>wb.
      bind_result (on_sheet sheet (ws_setitem ''B4'' ''Qty'') wb) (\<lambda>wb.
      bind_result (on_sheet sheet (ws_setitem ''C4'' ''Price'') wb) (\<lambda>wb.
      bind_result (style_table_header sheet [''A'', ''B'', ''C''] wb) (\<lambda>wb.
      bind_result (register_name ''customerName''
                     (DefinedName_init ''customerName'' ''$'Sheet1'!$A$2'') wb) (\<lambda>wb.
      bind_result (register_name ''orderDate''
                     (DefinedName_init ''orderDate'' ''$'Sheet1'!$B$2'') wb) (\<lambda>wb.
      bind_result (register_name ''items''
                     (DefinedName_init ''items'' ''$'Sheet1'!$A$5:$C$10'') wb) (\<lambda>wb.
      bind_result (on_sheet sheet (ws_set_width ''A'' 15) wb) (\<lambda>wb.
      bind_result (on_sheet sheet (ws_set_width ''B'' 15) wb) (\<lambda>wb.
      on_sheet sheet (ws_set_width ''C'' 12) wb)))))))))))))))))"

subsection \<open>The file system and standard output\<close>

text \<open>
  What the script meets of the operating system. The files are the tree below the
  working directory: a path is the list of its components, the empty path is the working
  directory itself. \<open>denied\<close> says where the system refuses to create or write.
  \<open>stdout_refusal\<close> is the standard-output stream of a process started here: given
  the lines written so far and the next line, it says whether writing that line raises,
  and what (a stream that cannot encode the text, a terminal or pipe that has gone away).
  The path strings of the script are relative and have no \<open>.\<close> or \<open>..\<close> component, and
  the model reads a path string that way: it is split at \<open>/\<close> and empty components are
  dropped.
\<close>

datatype file_content = Spreadsheet Workbook | OtherData string

datatype node = Directory | RegularFile file_content

type_synonym path = "string list"

record filesystem =
  nodes :: "path \<rightharpoonup> node"
  denied :: "path \<Rightarrow> bool"
  stdout_refusal :: "string list \<Rightarrow> string \<Rightarrow> error option"

fun split_sep :: "string \<Rightarrow> string \<Rightarrow> string list" where
  "split_sep acc [] = [acc]"
| "split_sep acc (c # cs) =
     (if c = CHR ''/'' then acc # split_sep [] cs else split_sep (acc @ [c]) cs)"

definition components :: "string \<Rightarrow> path" where
  "components s = filter (\<lambda>c. c \<noteq> []) (split_sep [] s)"

text \<open>\<^verbatim>\<open>os.path.join(a, b)\<close> on a POSIX system.\<close>

definition path_join :: "string \<Rightarrow> string \<Rightarrow> string" where
  "path_join a b =
     (if take 1 b = ''/'' then b
      else if a = [] then a @ b
      else if drop (length a - 1) a = ''/'' then a @ b
      else a @ ''/'' @ b)"

text \<open>
  Path resolution walks the components: a path leads to a node only when every proper
  prefix of it is a directory.
\<close>

definition proper_prefixes :: "path \<Rightarrow> path list" where
  "proper_prefixes p = map (\<lambda>n. take n p) [1..<length p]"

definition is_directory :: "node option \<Rightarrow> bool" where
  "is_directory n = (case n of Some Directory \<Rightarrow> True | _ \<Rightarrow> False)"

definition stat :: "filesystem \<Rightarrow> path \<Rightarrow> node option" where
  "stat fs p =
     (if p = [] then Some Directory
      else if list_all (\<lambda>q. is_directory (nodes fs q)) (proper_prefixes p) then nodes fs p
      else None)"

definition path_exists :: "filesystem \<Rightarrow> path \<Rightarrow> bool" where
  "path_exists fs p = (case stat fs p of None \<Rightarrow> False | Some n \<Rightarrow> True)"

definition isdir :: "filesystem \<Rightarrow> path \<Rightarrow> bool" where
  "isdir fs p = is_directory (stat fs p)"

text \<open>\<^verbatim>\<open>os.mkdir\<close>: creates one directory, inside a parent that is there.\<close>

definition mkdir :: "filesystem \<Rightarrow> path \<Rightarrow> error + filesystem" where
  "mkdir fs p =
     (if p = [] then Inl FileExistsError
      else case stat fs (butlast p) of
             None \<Rightarrow> Inl FileNotFoundError
           | Some (RegularFile c) \<Rightarrow> Inl NotADirectoryError
           | Some Directory \<Rightarrow>
               (case nodes fs p of
                  Some n \<Rightarrow> Inl FileExistsError
                | None \<Rightarrow>
                    if denied fs p then Inl PermissionError
                    else Inr (fs\<lparr>nodes := (nodes fs)(p \<mapsto> Directory)\<rparr>)))"

text \<open>
  \<^verbatim>\<open>os.makedirs(name, exist_ok=...)\<close>: the parent is made first when it does not exist
  (a \<open>FileExistsError\<close> from that call is passed over), then the directory itself; an
  error of that last \<open>mkdir\<close> is passed over only when \<open>exist_ok\<close> is set and the path is
  a directory. The result is the file system as the call leaves it and the exception, if
  one is raised: parents made before a failure stay.
\<close>

function makedirs_path :: "filesystem \<Rightarrow> path \<Rightarrow> bool \<Rightarrow> filesystem \<times> error option" where
  "makedirs_path fs p exist_ok =
     (case (if butlast p \<noteq> [] \<and> \<not> path_exists fs (butlast p)
            then (case makedirs_path fs (butlast p) exist_ok of
                    (fs', Some FileExistsError) \<Rightarrow> (fs', None)
                  | res \<Rightarrow> res)
            else (fs, None)) of
        (fs1, Some e) \<Rightarrow> (fs1, Some e)
      | (fs1, None) \<Rightarrow>
          (case mkdir fs1 p of
             Inr fs2 \<Rightarrow> (fs2, None)
           | Inl e \<Rightarrow> if exist_ok \<and> isdir fs1 p then (fs1, None) else (fs1, Some e)))"
  by pat_completeness auto
termination
proof (relation "measure (\<lambda>(fs, p, exist_ok). length p)")
  fix fs :: filesystem and p :: path and exist_ok :: bool
  assume "butlast p \<noteq> [] \<and> \<not> path_exists fs (butlast p)"
  then have "p \<noteq> []" by auto
  then show "((fs, butlast p, exist_ok), (fs, p, exist_ok)) \<in> measure (\<lambda>(fs, p, exist_ok). length p)"
    by simp
qed simp

declare makedirs_path.simps [simp del]

definition makedirs :: "string \<Rightarrow> bool \<Rightarrow> filesystem \<Rightarrow> filesystem \<times> error option" where
  "makedirs dirname exist_ok fs = makedirs_path fs (components dirname) exist_ok"

text \<open>
  What the library writes for a workbook, as a later load reads it back: cells, styles,
  widths and sheet titles as they are; for each defined name, its reference as text, where
  an unset reference is written as the text \<open>none\<close>.
\<close>

definition written_name :: "DefinedName \<Rightarrow> DefinedName" where
  "written_name dn =
     dn\<lparr>attr_text := Some (case attr_text dn of None \<Rightarrow> ''none'' | Some t \<Rightarrow> t)\<rparr>"

definition written_workbook :: "Workbook \<Rightarrow> Workbook" where
  "written_workbook wb =
     wb\<lparr>defined_names := map (\<lambda>(k, dn). (k, written_name dn)) (defined_names wb)\<rparr>"

text \<open>
  \<^verbatim>\<open>wb.save(filename)\<close>: opens the file for writing, which creates it or replaces its
  content, and writes the workbook.
\<close>

definition save :: "Workbook \<Rightarrow> string \<Rightarrow> filesystem \<Rightarrow> error + filesystem" where
  "save wb filename fs =
     (let p = components filename in
      if p = [] then (if filename = [] then Inl FileNotFoundError else Inl IsADirectoryError)
      else case stat fs (butlast p) of
             None \<Rightarrow> Inl FileNotFoundError
           | Some (RegularFile c) \<Rightarrow> Inl NotADirectoryError
           | Some Directory \<Rightarrow>
               (case nodes fs p of
                  Some Directory \<Rightarrow> Inl IsADirectoryError
                | _ \<Rightarrow>
                    if denied fs p then Inl PermissionError
                    else Inr (fs\<lparr>nodes := (nodes fs)(p \<mapsto>
                           RegularFile (Spreadsheet (written_workbook wb)))\<rparr>)))"

text \<open>Opening a spreadsheet file gives the workbook as it was written.\<close>

definition load_workbook :: "string \<Rightarrow> filesystem \<Rightarrow> Workbook option" where
  "load_workbook filename fs =
     (case stat fs (components filename) of
        Some (RegularFile (Spreadsheet wb)) \<Rightarrow> Some wb
      | _ \<Rightarrow> None)"

text \<open>
  A process: the system state, the lines written to standard output so far, and the
  exception that ended it, if any. \<^verbatim>\<open>print(line)\<close> writes the line unless the stream
  refuses it, in which case nothing of the line is written and the exception ends the
  process: no later statement runs.
\<close>

record process =
  filesys :: filesystem
  stdout :: "string list"
  raised :: "error option"

definition print :: "process \<Rightarrow> string \<Rightarrow> process" where
  "print pr line =
     (case raised pr of
        Some e \<Rightarrow> pr
      | None \<Rightarrow>
          (case stdout_refusal (filesys pr) (stdout pr) line of
             Some e \<Rightarrow> pr\<lparr>raised := Some e\<rparr>
           | None \<Rightarrow> pr\<lparr>stdout := stdout pr @ [line]\<rparr>))"

subsection \<open>The script: directory, save and report (lines 52 to 67)\<close>

definition output_dir :: string where
  "output_dir = ''config-repo/common-templates/templates''"

definition output_path :: string where
  "output_path = path_join output_dir ''example.xlsx''"

text \<open>
  The check mark that starts the first line is outside ASCII; it stands here as the three
  bytes of its UTF-8 encoding.
\<close>

definition report :: "process \<Rightarrow> process" where
  "report pr =
     foldl print pr
       [CHR 0xE2 # CHR 0x9C # CHR 0x93 # '' Created: '' @ output_path,
        ''  - Named range 'customerName' -> A2 (FreeMarker: ${customerName})'',
        ''  - Named range 'orderDate' -> B2 (FreeMarker: ${orderDate})'',
        ''  - Named range 'items' -> A5:C10 (table area)'',
        [],
        ''Next: call the API endpoints:'',
        ''  1. POST /api/documents/fill-excel'',
        ''  2. POST /api/documents/verify-excel'']"

definition create_example_excel :: "filesystem \<Rightarrow> process" where
  "create_example_excel fs =
     (case build_workbook of
        Inl e \<Rightarrow> \<lparr>filesys = fs, stdout = [], raised = Some e\<rparr>
      | Inr wb \<Rightarrow>
          (case makedirs output_dir True fs of
             (fs1, Some e) \<Rightarrow> \<lparr>filesys = fs1, stdout = [], raised = Some e\<rparr>
           | (fs1, None) \<Rightarrow>
               (case save wb output_path fs1 of
                  Inl e \<Rightarrow> \<lparr>filesys = fs1, stdout = [], raised = Some e\<rparr>
                | Inr fs2 \<Rightarrow> report \<lparr>filesys = fs2, stdout = [], raised = None\<rparr>)))"

subsection \<open>Example file systems\<close>

text \<open>
  Starting states on which the theorems below are exercised: an empty working
  directory, one where nothing may be created, one that already holds the output
  directory with an older file at the output path (standard output accepts every line in
  these three), an empty working directory whose standard output encodes ASCII only, and
  one whose standard output goes away after the first line.
\<close>

definition empty_fs :: filesystem where
  "empty_fs = \<lparr>nodes = Map.empty, denied = (\<lambda>p. False), stdout_refusal = (\<lambda>out line. None)\<rparr>"

definition readonly_fs :: filesystem where
  "readonly_fs = \<lparr>nodes = Map.empty, denied = (\<lambda>p. True), stdout_refusal = (\<lambda>out line. None)\<rparr>"

definition ascii_stdout_fs :: filesystem where
  "ascii_stdout_fs =
     \<lparr>nodes = Map.empty, denied = (\<lambda>p. False),
      stdout_refusal = (\<lambda>out line.
        if list_all (\<lambda>c. of_char c < (128 :: nat)) line then None else Some UnicodeEncodeError)\<rparr>"

definition hangup_fs :: filesystem where
  "hangup_fs =
     \<lparr>nodes = Map.empty, denied = (\<lambda>p. False),
      stdout_refusal = (\<lambda>out line. if out = [] then None else Some OSError)\<rparr>"

definition fs_with_prior_file :: filesystem where
  "fs_with_prior_file =
     \<lparr>nodes = [[''config-repo''] \<mapsto> Directory,
               [''config-repo'', ''common-templates''] \<mapsto> Directory,
               [''config-repo'', ''common-templates'', ''templates''] \<mapsto> Directory,
               [''config-repo'', ''common-templates'', ''templates'', ''example.xlsx'']
                  \<mapsto> RegularFile (OtherData ''stale'')],
      denied = (\<lambda>p. False), stdout_refusal = (\<lambda>out line. None)\<rparr>"

section \<open>Evaluating the script\<close>

subsection \<open>Paths\<close>

lemma components_output_dir:
  "components output_dir = [''config-repo'', ''common-templates'', ''templates'']"
  by (simp add: components_def output_dir_def)

lemma output_path_literal:
  "output_path = ''config-repo/common-templates/templates/example.xlsx''"
  by (simp add: output_path_def output_dir_def path_join_def)

lemma components_output_path:
  "components output_path = [''config-repo'', ''common-templates'', ''templates'', ''example.xlsx'']"
  by (simp add: components_def output_path_literal)

lemma proper_prefixes_simps:
  "proper_prefixes [] = []"
  "proper_prefixes [a] = []"
  "proper_prefixes [a, b] = [[a]]"
  "proper_prefixes [a, b, c] = [[a], [a, b]]"
  "proper_prefixes [a, b, c, d] = [[a], [a, b], [a, b, c]]"
  by (simp_all add: proper_prefixes_def upt_rec)

lemma is_directory_iff: "is_directory n \<longleftrightarrow> n = Some Directory"
  by (simp add: is_directory_def split: option.splits node.splits)

lemma stat_simps:
  "stat fs [] = Some Directory"
  "stat fs [a] = nodes fs [a]"
  "stat fs [a, b] = (if is_directory (nodes fs [a]) then nodes fs [a, b] else None)"
  "stat fs [a, b, c] =
     (if is_directory (nodes fs [a]) \<and> is_directory (nodes fs [a, b]) then nodes fs [a, b, c]
      else None)"
  "stat fs [a, b, c, d] =
     (if is_directory (nodes fs [a]) \<and> is_directory (nodes fs [a, b])
         \<and> is_directory (nodes fs [a, b, c])
      then nodes fs [a, b, c, d] else None)"
  by (simp_all add: stat_def proper_prefixes_simps)

lemmas fs_defs = isdir_def path_exists_def mkdir_def stat_simps is_directory_iff

subsection \<open>Directory creation and saving\<close>

lemmas makedirs_unfold =
  makedirs_path.simps [of _ "[a, b, c]"] makedirs_path.simps [of _ "[a, b]"]
  makedirs_path.simps [of _ "[a]"]
  for a b c

lemma makedirs_existing:
  assumes "isdir fs [a, b, c]"
  shows "makedirs_path fs [a, b, c] True = (fs, None)"
  using assms
  by (auto simp: makedirs_unfold fs_defs split: option.splits node.splits if_splits)

lemma makedirs_created:
  assumes "makedirs_path fs [a, b, c] True = (fs1, None)"
  shows "isdir fs1 [a, b, c] \<and> isdir fs1 [a, b] \<and> isdir fs1 [a] \<and> denied fs1 = denied fs
    \<and> stdout_refusal fs1 = stdout_refusal fs
    \<and> (\<forall>p. p \<notin> {[a], [a, b], [a, b, c]} \<longrightarrow> nodes fs1 p = nodes fs p)
    \<and> (\<forall>p n. nodes fs p = Some n \<longrightarrow> nodes fs1 p = Some n)"
  using assms
  by (auto simp: makedirs_unfold fs_defs
      split: option.splits node.splits if_splits prod.splits error.splits sum.splits)

lemma written_workbook_sheets: "worksheets (written_workbook wb) = worksheets wb"
  by (simp add: written_workbook_def)

lemma save_load:
  assumes "save wb output_path fs1 = Inr fs2"
  shows "load_workbook output_path fs2 = Some (written_workbook wb)"
  using assms
  by (auto simp: save_def load_workbook_def components_output_path stat_simps is_directory_iff
      Let_def split: option.splits node.splits if_splits)

subsection \<open>The workbook that the script builds\<close>

lemmas coord_defs = coordinate_from_string_def strip_dollar_def is_letter_def is_digit_def
  upper_def int_of_digits_def digit_value_def Let_def

lemma coord_keys:
  "coordinate_from_string ''A1'' = Inr (''A'', 1)"
  "coordinate_from_string ''B1'' = Inr (''B'', 1)"
  "coordinate_from_string ''A2'' = Inr (''A'', 2)"
  "coordinate_from_string ''B2'' = Inr (''B'', 2)"
  "coordinate_from_string ''A4'' = Inr (''A'', 4)"
  "coordinate_from_string ''B4'' = Inr (''B'', 4)"
  "coordinate_from_string ''C4'' = Inr (''C'', 4)"
  by (simp_all add: coord_defs)

lemmas build_defs = coord_keys ws_setitem_def ws_set_font_def ws_set_fill_def ws_set_title_def
  ws_set_width_def get_cell_def new_cell_def Font_init_def PatternFill_init_def on_sheet_def
  bind_result_def Workbook_init_def Worksheet_init_def register_name_def
  defined_names_setitem_def DefinedName_init_def rgb_def is_hex_def Let_def

lemma build_workbook_succeeds: "\<exists>wb. build_workbook = Inr wb"
  unfolding build_workbook_def by (simp add: build_defs)

lemma build_workbook_result:
  assumes "build_workbook = Inr wb"
  shows "\<exists>ws. worksheets wb = [ws] \<and> active wb = 0
    \<and> defined_names wb =
         [(''customerName'',
             \<lparr>name = ''customerName'', comment = Some ''$'Sheet1'!$A$2'', attr_text = None\<rparr>),
          (''orderDate'',
             \<lparr>name = ''orderDate'', comment = Some ''$'Sheet1'!$B$2'', attr_text = None\<rparr>),
          (''items'',
             \<lparr>name = ''items'', comment = Some ''$'Sheet1'!$A$5:$C$10'', attr_text = None\<rparr>)]
    \<and> title ws = ''Sheet1''
    \<and> cells ws = (\<lambda>k.
         if k = (''A'', 1) then
           Some \<lparr>cell_value = Some ''Customer Name'', font = \<lparr>bold = True\<rparr>, fill = default_fill\<rparr>
         else if k = (''B'', 1) then
           Some \<lparr>cell_value = Some ''Date'', font = \<lparr>bold = True\<rparr>, fill = default_fill\<rparr>
         else if k = (''A'', 2) then
           Some \<lparr>cell_value = Some ''${customerName}'', font = default_font, fill = default_fill\<rparr>
         else if k = (''B'', 2) then
           Some \<lparr>cell_value = Some ''${orderDate}'', font = default_font, fill = default_fill\<rparr>
         else if k = (''A'', 4) then
           Some \<lparr>cell_value = Some ''Item'', font = \<lparr>bold = True\<rparr>,
                 fill = \<lparr>start_color = ''00CCCCCC'', end_color = ''00CCCCCC'', fill_type = Some ''solid''\<rparr>\<rparr>
         else if k = (''B'', 4) then
           Some \<lparr>cell_value = Some ''Qty'', font = \<lparr>bold = True\<rparr>,
                 fill = \<lparr>start_color = ''00CCCCCC'', end_color = ''00CCCCCC'', fill_type = Some ''solid''\<rparr>\<rparr>
         else if k = (''C'', 4) then
           Some \<lparr>cell_value = Some ''Price'', font = \<lparr>bold = True\<rparr>,
                 fill = \<lparr>start_color = ''00CCCCCC'', end_color = ''00CCCCCC'', fill_type = Some ''solid''\<rparr>\<rparr>
         else None)
    \<and> column_dimensions ws =
         (\<lambda>c. if c = ''A'' then Some 15 else if c = ''B'' then Some 15
              else if c = ''C'' then Some 12 else None)"
  using assms unfolding build_workbook_def
  by (auto simp: build_defs fun_eq_iff)

subsection \<open>Runs of the script\<close>

lemma run_unfold:
  assumes "build_workbook = Inr wb" and "makedirs output_dir True fs = (fs1, r)"
  shows "create_example_excel fs =
    (case r of
       Some e \<Rightarrow> \<lparr>filesys = fs1, stdout = [], raised = Some e\<rparr>
     | None \<Rightarrow>
         (case save wb output_path fs1 of
            Inl e \<Rightarrow> \<lparr>filesys = fs1, stdout = [], raised = Some e\<rparr>
          | Inr fs2 \<Rightarrow> report \<lparr>filesys = fs2, stdout = [], raised = None\<rparr>))"
  by (simp add: create_example_excel_def assms split: option.splits)

lemma print_filesys: "filesys (print pr line) = filesys pr"
  by (simp add: print_def split: option.splits)

lemma foldl_print_raised: "raised pr = Some e \<Longrightarrow> foldl print pr ls = pr"
  by (induction ls) (simp_all add: print_def)

lemma foldl_print_outcome:
  assumes "raised pr = None"
  shows "case raised (foldl print pr ls) of
           None \<Rightarrow> stdout (foldl print pr ls) = stdout pr @ ls
         | Some e \<Rightarrow> \<exists>n<length ls. stdout (foldl print pr ls) = stdout pr @ take n ls"
  using assms
proof (induction ls arbitrary: pr)
  case Nil
  then show ?case by simp
next
  case (Cons l ls)
  show ?case
  proof (cases "stdout_refusal (filesys pr) (stdout pr) l")
    case (Some e)
    with Cons.prems have stop: "print pr l = pr\<lparr>raised := Some e\<rparr>"
      by (simp add: print_def)
    have "foldl print (pr\<lparr>raised := Some e\<rparr>) ls = pr\<lparr>raised := Some e\<rparr>"
      by (rule foldl_print_raised) simp
    with stop have "foldl print pr (l # ls) = pr\<lparr>raised := Some e\<rparr>"
      by simp
    then show ?thesis
      by (auto intro: exI [of _ 0])
  next
    case None
    with Cons.prems have go: "print pr l = pr\<lparr>stdout := stdout pr @ [l]\<rparr>"
      by (simp add: print_def)
    from Cons.prems have "raised (pr\<lparr>stdout := stdout pr @ [l]\<rparr>) = None"
      by simp
    from Cons.IH [OF this] show ?thesis
    proof (cases "raised (foldl print (pr\<lparr>stdout := stdout pr @ [l]\<rparr>) ls)")
      case None
      with \<open>case raised (foldl print (pr\<lparr>stdout := stdout pr @ [l]\<rparr>) ls) of
             None \<Rightarrow> _ | Some e \<Rightarrow> _\<close> show ?thesis
        by (simp add: go)
    next
      case (Some e)
      with \<open>case raised (foldl print (pr\<lparr>stdout := stdout pr @ [l]\<rparr>) ls) of
             None \<Rightarrow> _ | Some e \<Rightarrow> _\<close>
      obtain n where "n < length ls"
        and "stdout (foldl print (pr\<lparr>stdout := stdout pr @ [l]\<rparr>) ls)
              = stdout pr @ [l] @ take n ls"
        by auto
      with Some show ?thesis
        by (auto simp: go intro!: exI [of _ "Suc n"])
    qed
  qed
qed

lemma report_outcome:
  "case raised (report \<lparr>filesys = f, stdout = [], raised = None\<rparr>) of
     None \<Rightarrow>
       stdout (report \<lparr>filesys = f, stdout = [], raised = None\<rparr>) =
         [CHR 0xE2 # CHR 0x9C # CHR 0x93 #
            '' Created: config-repo/common-templates/templates/example.xlsx'',
          ''  - Named range 'customerName' -> A2 (FreeMarker: ${customerName})'',
          ''  - Named range 'orderDate' -> B2 (FreeMarker: ${orderDate})'',
          ''  - Named range 'items' -> A5:C10 (table area)'',
          [],
          ''Next: call the API endpoints:'',
          ''  1. POST /api/documents/fill-excel'',
          ''  2. POST /api/documents/verify-excel'']
   | Some e \<Rightarrow>
       \<exists>n<8. stdout (report \<lparr>filesys = f, stdout = [], raised = None\<rparr>) =
         take n
         [CHR 0xE2 # CHR 0x9C # CHR 0x93 #
            '' Created: config-repo/common-templates/templates/example.xlsx'',
          ''  - Named range 'customerName' -> A2 (FreeMarker: ${customerName})'',
          ''  - Named range 'orderDate' -> B2 (FreeMarker: ${orderDate})'',
          ''  - Named range 'items' -> A5:C10 (table area)'',
          [],
          ''Next: call the API endpoints:'',
          ''  1. POST /api/documents/fill-excel'',
          ''  2. POST /api/documents/verify-excel'']"
proof -
  define ls where "ls =
         [CHR 0xE2 # CHR 0x9C # CHR 0x93 #
            '' Created: config-repo/common-templates/templates/example.xlsx'',
          ''  - Named range 'customerName' -> A2 (FreeMarker: ${customerName})'',
          ''  - Named range 'orderDate' -> B2 (FreeMarker: ${orderDate})'',
          ''  - Named range 'items' -> A5:C10 (table area)'',
          [],
          ''Next: call the API endpoints:'',
          ''  1. POST /api/documents/fill-excel'',
          ''  2. POST /api/documents/verify-excel'']"
  define pr where "pr = \<lparr>filesys = f, stdout = [], raised = None\<rparr>"
  have start: "raised pr = None" and no_output: "stdout pr = []"
    by (simp_all add: pr_def)
  have len: "length ls = 8"
    by (simp add: ls_def)
  have rep: "report pr = foldl print pr ls"
    by (simp add: report_def ls_def output_path_literal)
  from foldl_print_outcome [OF start, of ls]
  have "case raised (report pr) of
          None \<Rightarrow> stdout (report pr) = ls
        | Some e \<Rightarrow> \<exists>n<8. stdout (report pr) = take n ls"
    unfolding rep no_output len append_Nil .
  then show ?thesis
    unfolding ls_def pr_def .
qed

lemma run_saved:
  assumes "build_workbook = Inr wb" and "makedirs output_dir True fs = (fs1, None)"
    and "save wb output_path fs1 = Inr fs2"
  shows "create_example_excel fs = report \<lparr>filesys = fs2, stdout = [], raised = None\<rparr>"
    and "filesys (create_example_excel fs) = fs2"
    and "load_workbook output_path (filesys (create_example_excel fs)) = Some (written_workbook wb)"
proof -
  show run: "create_example_excel fs = report \<lparr>filesys = fs2, stdout = [], raised = None\<rparr>"
    unfolding run_unfold [OF assms(1,2)] by (simp add: assms(3))
  then show after: "filesys (create_example_excel fs) = fs2"
    by (simp add: report_def print_filesys)
  from save_load [OF assms(3)] after
  show "load_workbook output_path (filesys (create_example_excel fs)) = Some (written_workbook wb)"
    by simp
qed

lemma run_printing:
  assumes "stdout (create_example_excel fs) \<noteq> [] \<or> raised (create_example_excel fs) = None"
  shows "\<exists>wb fs1. build_workbook = Inr wb \<and> makedirs output_dir True fs = (fs1, None)
    \<and> save wb output_path fs1 = Inr (filesys (create_example_excel fs))"
proof -
  obtain wb where built: "build_workbook = Inr wb"
    using build_workbook_succeeds by blast
  obtain fs1 r where md: "makedirs output_dir True fs = (fs1, r)"
    by (cases "makedirs output_dir True fs")
  from assms have r: "r = None"
    unfolding run_unfold [OF built md] by (auto split: option.splits)
  from assms r obtain fs2 where sv: "save wb output_path fs1 = Inr fs2"
    unfolding run_unfold [OF built md] by (cases "save wb output_path fs1") auto
  from md r have md': "makedirs output_dir True fs = (fs1, None)"
    by simp
  from run_saved(2) [OF built md' sv] built md' sv show ?thesis
    by (intro exI [of _ wb] exI [of _ fs1] conjI) simp_all
qed

lemma successful_run:
  assumes "raised (create_example_excel fs) = None"
  shows "\<exists>wb. build_workbook = Inr wb
    \<and> load_workbook output_path (filesys (create_example_excel fs)) = Some (written_workbook wb)"
proof -
  from assms have "stdout (create_example_excel fs) \<noteq> [] \<or> raised (create_example_excel fs) = None"
    by simp
  from run_printing [OF this] obtain wb fs1 where
    built: "build_workbook = Inr wb" and md: "makedirs output_dir True fs = (fs1, None)"
    and sv: "save wb output_path fs1 = Inr (filesys (create_example_excel fs))"
    by blast
  from built run_saved(3) [OF built md sv] show ?thesis
    by (intro exI [of _ wb] conjI)
qed

lemma successful_run_loads:
  assumes "build_workbook = Inr wb" and "raised (create_example_excel fs) = None"
  shows "load_workbook output_path (filesys (create_example_excel fs)) = Some (written_workbook wb)"
proof -
  from successful_run [OF assms(2)] obtain wb' where
    built': "build_workbook = Inr wb'" and
    saved: "load_workbook output_path (filesys (create_example_excel fs))
      = Some (written_workbook wb')"
    by blast
  from built' [symmetric] assms(1) have "Inr wb' = (Inr wb :: error + Workbook)"
    by (rule trans)
  then have "wb' = wb" by simp
  with saved show ?thesis by simp
qed

lemma run_on_empty_fs: "raised (create_example_excel empty_fs) = None"
proof -
  obtain wb where built: "build_workbook = Inr wb"
    using build_workbook_succeeds by blast
  have md: "makedirs output_dir True empty_fs =
      (\<lparr>nodes = [[''config-repo''] \<mapsto> Directory,
               [''config-repo'', ''common-templates''] \<mapsto> Directory,
               [''config-repo'', ''common-templates'', ''templates''] \<mapsto> Directory],
        denied = (\<lambda>p. False), stdout_refusal = (\<lambda>out line. None)\<rparr>, None)"
    by (simp add: makedirs_def components_output_dir makedirs_unfold fs_defs empty_fs_def)
  show ?thesis
    unfolding run_unfold [OF built md]
    by (simp add: save_def components_output_path stat_simps is_directory_iff report_def print_def)
qed

lemma run_on_readonly_fs:
  "raised (create_example_excel readonly_fs) = Some PermissionError"
  "stdout (create_example_excel readonly_fs) = []"
proof -
  obtain wb where built: "build_workbook = Inr wb"
    using build_workbook_succeeds by blast
  have md: "makedirs output_dir True readonly_fs = (readonly_fs, Some PermissionError)"
    by (simp add: makedirs_def components_output_dir makedirs_unfold fs_defs readonly_fs_def)
  show "raised (create_example_excel readonly_fs) = Some PermissionError"
    and "stdout (create_example_excel readonly_fs) = []"
    unfolding run_unfold [OF built md] by simp_all
qed

lemma run_on_fs_with_prior_file: "raised (create_example_excel fs_with_prior_file) = None"
proof -
  obtain wb where built: "build_workbook = Inr wb"
    using build_workbook_succeeds by blast
  have "isdir fs_with_prior_file [''config-repo'', ''common-templates'', ''templates'']"
    by (simp add: fs_defs fs_with_prior_file_def)
  then have md: "makedirs output_dir True fs_with_prior_file = (fs_with_prior_file, None)"
    by (simp add: makedirs_def components_output_dir makedirs_existing)
  show ?thesis
    unfolding run_unfold [OF built md]
    by (simp add: save_def components_output_path stat_simps is_directory_iff report_def print_def
        fs_with_prior_file_def)
qed

lemma run_on_ascii_stdout_fs:
  "raised (create_example_excel ascii_stdout_fs) = Some UnicodeEncodeError"
  "stdout (create_example_excel ascii_stdout_fs) = []"
  "\<exists>wb. load_workbook output_path (filesys (create_example_excel ascii_stdout_fs)) = Some wb"
proof -
  obtain wb where built: "build_workbook = Inr wb"
    using build_workbook_succeeds by blast
  have md: "makedirs output_dir True ascii_stdout_fs =
      (ascii_stdout_fs\<lparr>nodes := [[''config-repo''] \<mapsto> Directory,
               [''config-repo'', ''common-templates''] \<mapsto> Directory,
               [''config-repo'', ''common-templates'', ''templates''] \<mapsto> Directory]\<rparr>, None)"
    by (simp add: makedirs_def components_output_dir makedirs_unfold fs_defs ascii_stdout_fs_def)
  show "raised (create_example_excel ascii_stdout_fs) = Some UnicodeEncodeError"
    and "stdout (create_example_excel ascii_stdout_fs) = []"
    and "\<exists>wb. load_workbook output_path (filesys (create_example_excel ascii_stdout_fs)) = Some wb"
    unfolding run_unfold [OF built md]
    by (simp_all add: save_def load_workbook_def components_output_path stat_simps
        is_directory_iff report_def print_def ascii_stdout_fs_def)
qed

lemma run_on_hangup_fs:
  "raised (create_example_excel hangup_fs) = Some OSError"
  "stdout (create_example_excel hangup_fs) =
     [CHR 0xE2 # CHR 0x9C # CHR 0x93 #
        '' Created: config-repo/common-templates/templates/example.xlsx'']"
  "\<exists>wb. load_workbook output_path (filesys (create_example_excel hangup_fs)) = Some wb"
proof -
  obtain wb where built: "build_workbook = Inr wb"
    using build_workbook_succeeds by blast
  have md: "makedirs output_dir True hangup_fs =
      (hangup_fs\<lparr>nodes := [[''config-repo''] \<mapsto> Directory,
               [''config-repo'', ''common-templates''] \<mapsto> Directory,
               [''config-repo'', ''common-templates'', ''templates''] \<mapsto> Directory]\<rparr>, None)"
    by (simp add: makedirs_def components_output_dir makedirs_unfold fs_defs hangup_fs_def)
  show "raised (create_example_excel hangup_fs) = Some OSError"
    and "stdout (create_example_excel hangup_fs) =
     [CHR 0xE2 # CHR 0x9C # CHR 0x93 #
        '' Created: config-repo/common-templates/templates/example.xlsx'']"
    and "\<exists>wb. load_workbook output_path (filesys (create_example_excel hangup_fs)) = Some wb"
    unfolding run_unfold [OF built md]
    by (simp_all add: save_def load_workbook_def components_output_path [unfolded output_path_literal]
        stat_simps is_directory_iff report_def print_def hangup_fs_def output_path_literal)
qed

section \<open>The claims\<close>

text \<open>
  C2. After a successful run, the file at the output path opens to a workbook whose one
  sheet, Sheet1, holds exactly these texts: A1 Customer Name, B1 Date, A2 the placeholder
  for customerName, B2 the placeholder for orderDate, A4 Item, B4 Qty, C4 Price.
\<close>

theorem cell_values_after_run:
  assumes "raised (create_example_excel fs) = None"
  shows "\<exists>wb ws. load_workbook output_path (filesys (create_example_excel fs)) = Some wb
    \<and> worksheets wb = [ws] \<and> title ws = ''Sheet1''
    \<and> cell_value (get_cell ws (''A'', 1)) = Some ''Customer Name''
    \<and> cell_value (get_cell ws (''B'', 1)) = Some ''Date''
    \<and> cell_value (get_cell ws (''A'', 2)) = Some ''${customerName}''
    \<and> cell_value (get_cell ws (''B'', 2)) = Some ''${orderDate}''
    \<and> cell_value (get_cell ws (''A'', 4)) = Some ''Item''
    \<and> cell_value (get_cell ws (''B'', 4)) = Some ''Qty''
    \<and> cell_value (get_cell ws (''C'', 4)) = Some ''Price''"
proof -
  from successful_run [OF assms] obtain wb where
    built: "build_workbook = Inr wb" and
    saved: "load_workbook output_path (filesys (create_example_excel fs))
      = Some (written_workbook wb)"
    by blast
  from build_workbook_result [OF built] saved show ?thesis
    by (auto simp: get_cell_def written_workbook_sheets)
qed

theorem cell_values_after_run_witness:
  "raised (create_example_excel empty_fs) = None \<and>
   (\<exists>wb ws. load_workbook output_path (filesys (create_example_excel empty_fs)) = Some wb
      \<and> worksheets wb = [ws] \<and> title ws = ''Sheet1''
      \<and> cell_value (get_cell ws (''A'', 1)) = Some ''Customer Name''
      \<and> cell_value (get_cell ws (''B'', 1)) = Some ''Date''
      \<and> cell_value (get_cell ws (''A'', 2)) = Some ''${customerName}''
      \<and> cell_value (get_cell ws (''B'', 2)) = Some ''${orderDate}''
      \<and> cell_value (get_cell ws (''A'', 4)) = Some ''Item''
      \<and> cell_value (get_cell ws (''B'', 4)) = Some ''Qty''
      \<and> cell_value (get_cell ws (''C'', 4)) = Some ''Price'')"
  using run_on_empty_fs cell_values_after_run [OF run_on_empty_fs] by (rule conjI)

text \<open>
  C3. The builder gives A1 and B1 a bold font, and gives each of A4, B4 and C4 a bold
  font and a solid fill whose two colours are the light gray CCCCCC (stored with its
  alpha digits in front, 00CCCCCC).
\<close>

theorem header_cells_are_styled:
  "\<exists>wb ws. build_workbook = Inr wb \<and> worksheets wb = [ws]
    \<and> bold (font (get_cell ws (''A'', 1)))
    \<and> bold (font (get_cell ws (''B'', 1)))
    \<and> list_all (\<lambda>col. bold (font (get_cell ws (col, 4)))
                     \<and> fill_type (fill (get_cell ws (col, 4))) = Some ''solid''
                     \<and> start_color (fill (get_cell ws (col, 4))) = ''00CCCCCC''
                     \<and> end_color (fill (get_cell ws (col, 4))) = ''00CCCCCC'')
         [''A'', ''B'', ''C'']"
proof -
  obtain wb where built: "build_workbook = Inr wb"
    using build_workbook_succeeds by blast
  from build_workbook_result [OF built] built show ?thesis
    by (auto simp: get_cell_def)
qed

text \<open>
  C7. After a successful run, the saved sheet has the column widths 15 for A, 15 for B
  and 12 for C.
\<close>

theorem column_widths_after_run:
  assumes "raised (create_example_excel fs) = None"
  shows "\<exists>wb ws. load_workbook output_path (filesys (create_example_excel fs)) = Some wb
    \<and> worksheets wb = [ws] \<and> title ws = ''Sheet1''
    \<and> column_dimensions ws ''A'' = Some 15
    \<and> column_dimensions ws ''B'' = Some 15
    \<and> column_dimensions ws ''C'' = Some 12"
proof -
  from successful_run [OF assms] obtain wb where
    built: "build_workbook = Inr wb" and
    saved: "load_workbook output_path (filesys (create_example_excel fs))
      = Some (written_workbook wb)"
    by blast
  from build_workbook_result [OF built] saved show ?thesis
    by (auto simp: written_workbook_sheets)
qed

theorem column_widths_after_run_witness:
  "raised (create_example_excel empty_fs) = None \<and>
   (\<exists>wb ws. load_workbook output_path (filesys (create_example_excel empty_fs)) = Some wb
      \<and> worksheets wb = [ws] \<and> title ws = ''Sheet1''
      \<and> column_dimensions ws ''A'' = Some 15
      \<and> column_dimensions ws ''B'' = Some 15
      \<and> column_dimensions ws ''C'' = Some 12)"
  using run_on_empty_fs column_widths_after_run [OF run_on_empty_fs] by (rule conjI)

text \<open>
  C9. After a successful run, whatever was at the output path before, the path
  config-repo/common-templates/templates/example.xlsx holds a regular file with the
  workbook, and opening it gives exactly one sheet, titled Sheet1.
\<close>

theorem output_file_after_run:
  assumes "raised (create_example_excel fs) = None"
  shows "output_path = ''config-repo/common-templates/templates/example.xlsx''
    \<and> (\<exists>wb. stat (filesys (create_example_excel fs)) (components output_path)
               = Some (RegularFile (Spreadsheet wb))
          \<and> load_workbook output_path (filesys (create_example_excel fs)) = Some wb
          \<and> map title (worksheets wb) = [''Sheet1''])"
proof -
  from successful_run [OF assms] obtain wb where
    built: "build_workbook = Inr wb" and
    saved: "load_workbook output_path (filesys (create_example_excel fs))
      = Some (written_workbook wb)"
    by blast
  from saved have "stat (filesys (create_example_excel fs)) (components output_path)
      = Some (RegularFile (Spreadsheet (written_workbook wb)))"
    by (auto simp: load_workbook_def split: option.splits node.splits file_content.splits)
  moreover from build_workbook_result [OF built]
  have "map title (worksheets (written_workbook wb)) = [''Sheet1'']"
    by (auto simp: written_workbook_sheets)
  ultimately show ?thesis
    using saved output_path_literal by (intro conjI exI [of _ "written_workbook wb"])
qed

theorem output_file_after_run_witness:
  "raised (create_example_excel fs_with_prior_file) = None
   \<and> stat fs_with_prior_file (components ''config-repo/common-templates/templates/example.xlsx'')
       = Some (RegularFile (OtherData ''stale''))
   \<and> (\<exists>wb. stat (filesys (create_example_excel fs_with_prior_file))
                (components ''config-repo/common-templates/templates/example.xlsx'')
               = Some (RegularFile (Spreadsheet wb))
          \<and> load_workbook output_path (filesys (create_example_excel fs_with_prior_file)) = Some wb
          \<and> map title (worksheets wb) = [''Sheet1''])"
proof -
  have "stat fs_with_prior_file (components ''config-repo/common-templates/templates/example.xlsx'')
       = Some (RegularFile (OtherData ''stale''))"
    by (simp add: components_def stat_simps is_directory_iff fs_with_prior_file_def)
  with run_on_fs_with_prior_file output_file_after_run [OF run_on_fs_with_prior_file]
  show ?thesis by simp
qed

text \<open>
  C10. The builder writes a value into A1, B1, A2, B2, A4, B4 and C4 and into no other
  cell, no other cell exists on the sheet, only A1, B1, A4, B4 and C4 carry a font or a
  fill that is not the default, A2 and B2 keep the default font and fill, and no cell of
  A5:C10 is set.
\<close>

theorem only_seven_cells_written:
  "\<exists>wb ws. build_workbook = Inr wb \<and> worksheets wb = [ws]
    \<and> dom (cells ws) =
        {(''A'', 1), (''B'', 1), (''A'', 2), (''B'', 2), (''A'', 4), (''B'', 4), (''C'', 4)}
    \<and> {k. \<exists>c v. cells ws k = Some c \<and> cell_value c = Some v} =
        {(''A'', 1), (''B'', 1), (''A'', 2), (''B'', 2), (''A'', 4), (''B'', 4), (''C'', 4)}
    \<and> {k. \<exists>c. cells ws k = Some c \<and> \<not> (font c = default_font \<and> fill c = default_fill)} =
        {(''A'', 1), (''B'', 1), (''A'', 4), (''B'', 4), (''C'', 4)}
    \<and> font (get_cell ws (''A'', 2)) = default_font \<and> fill (get_cell ws (''A'', 2)) = default_fill
    \<and> font (get_cell ws (''B'', 2)) = default_font \<and> fill (get_cell ws (''B'', 2)) = default_fill
    \<and> dom (cells ws) \<inter> ({''A'', ''B'', ''C''} \<times> {5..10}) = {}"
proof -
  obtain wb where built: "build_workbook = Inr wb"
    using build_workbook_succeeds by blast
  from build_workbook_result [OF built] obtain ws where
    ws: "worksheets wb = [ws]" and
    cs: "cells ws = (\<lambda>k.
         if k = (''A'', 1) then
           Some \<lparr>cell_value = Some ''Customer Name'', font = \<lparr>bold = True\<rparr>, fill = default_fill\<rparr>
         else if k = (''B'', 1) then
           Some \<lparr>cell_value = Some ''Date'', font = \<lparr>bold = True\<rparr>, fill = default_fill\<rparr>
         else if k = (''A'', 2) then
           Some \<lparr>cell_value = Some ''${customerName}'', font = default_font, fill = default_fill\<rparr>
         else if k = (''B'', 2) then
           Some \<lparr>cell_value = Some ''${orderDate}'', font = default_font, fill = default_fill\<rparr>
         else if k = (''A'', 4) then
           Some \<lparr>cell_value = Some ''Item'', font = \<lparr>bold = True\<rparr>,
                 fill = \<lparr>start_color = ''00CCCCCC'', end_color = ''00CCCCCC'', fill_type = Some ''solid''\<rparr>\<rparr>
         else if k = (''B'', 4) then
           Some \<lparr>cell_value = Some ''Qty'', font = \<lparr>bold = True\<rparr>,
                 fill = \<lparr>start_color = ''00CCCCCC'', end_color = ''00CCCCCC'', fill_type = Some ''solid''\<rparr>\<rparr>
         else if k = (''C'', 4) then
           Some \<lparr>cell_value = Some ''Price'', font = \<lparr>bold = True\<rparr>,
                 fill = \<lparr>start_color = ''00CCCCCC'', end_color = ''00CCCCCC'', fill_type = Some ''solid''\<rparr>\<rparr>
         else None)"
    by blast
  have d: "dom (cells ws) =
        {(''A'', 1), (''B'', 1), (''A'', 2), (''B'', 2), (''A'', 4), (''B'', 4), (''C'', 4)}"
    unfolding cs by (auto split: if_splits)
  have v: "{k. \<exists>c v. cells ws k = Some c \<and> cell_value c = Some v} =
        {(''A'', 1), (''B'', 1), (''A'', 2), (''B'', 2), (''A'', 4), (''B'', 4), (''C'', 4)}"
    unfolding cs by (auto split: if_splits)
  have s: "{k. \<exists>c. cells ws k = Some c \<and> \<not> (font c = default_font \<and> fill c = default_fill)} =
        {(''A'', 1), (''B'', 1), (''A'', 4), (''B'', 4), (''C'', 4)}"
    unfolding cs by (auto simp: default_font_def default_fill_def split: if_splits)
  have p: "font (get_cell ws (''A'', 2)) = default_font \<and> fill (get_cell ws (''A'', 2)) = default_fill
    \<and> font (get_cell ws (''B'', 2)) = default_font \<and> fill (get_cell ws (''B'', 2)) = default_fill"
    unfolding cs get_cell_def by simp
  have e: "dom (cells ws) \<inter> ({''A'', ''B'', ''C''} \<times> {5..10}) = {}"
    unfolding d by auto
  from built ws d v s p e show ?thesis
    by (intro exI [of _ wb] exI [of _ ws] conjI) simp_all
qed

text \<open>
  C1. What the run registers under the three names. Each defined name is constructed
  from two positional arguments, so the text lands in the comment and the reference
  stays unset: none of the three names resolves to an area. The text itself starts with
  a dollar sign in front of the quoted sheet title, so it is not a reference either,
  while the same text without that sign is the reference to the intended cells.
\<close>

theorem registered_names_do_not_resolve:
  "\<exists>wb. build_workbook = Inr wb
    \<and> map_option destination (dict_get (defined_names wb) ''customerName'') = Some None
    \<and> map_option destination (dict_get (defined_names wb) ''orderDate'') = Some None
    \<and> map_option destination (dict_get (defined_names wb) ''items'') = Some None
    \<and> map_option attr_text (dict_get (defined_names wb) ''customerName'') = Some None
    \<and> map_option comment (dict_get (defined_names wb) ''customerName'') = Some (Some ''$'Sheet1'!$A$2'')
    \<and> map_option comment (dict_get (defined_names wb) ''orderDate'') = Some (Some ''$'Sheet1'!$B$2'')
    \<and> map_option comment (dict_get (defined_names wb) ''items'') = Some (Some ''$'Sheet1'!$A$5:$C$10'')
    \<and> parse_reference ''$'Sheet1'!$A$2'' = None
    \<and> parse_reference ''$'Sheet1'!$B$2'' = None
    \<and> parse_reference ''$'Sheet1'!$A$5:$C$10'' = None
    \<and> parse_reference '''Sheet1'!$A$2'' = Some (''Sheet1'', (''A'', 2), (''A'', 2))
    \<and> parse_reference '''Sheet1'!$B$2'' = Some (''Sheet1'', (''B'', 2), (''B'', 2))
    \<and> parse_reference '''Sheet1'!$A$5:$C$10'' = Some (''Sheet1'', (''A'', 5), (''C'', 10))"
proof -
  obtain wb where built: "build_workbook = Inr wb"
    using build_workbook_succeeds by blast
  have names: "map_option destination (dict_get (defined_names wb) ''customerName'') = Some None
    \<and> map_option destination (dict_get (defined_names wb) ''orderDate'') = Some None
    \<and> map_option destination (dict_get (defined_names wb) ''items'') = Some None
    \<and> map_option attr_text (dict_get (defined_names wb) ''customerName'') = Some None
    \<and> map_option comment (dict_get (defined_names wb) ''customerName'') = Some (Some ''$'Sheet1'!$A$2'')
    \<and> map_option comment (dict_get (defined_names wb) ''orderDate'') = Some (Some ''$'Sheet1'!$B$2'')
    \<and> map_option comment (dict_get (defined_names wb) ''items'') = Some (Some ''$'Sheet1'!$A$5:$C$10'')"
    using build_workbook_result [OF built] by (auto simp: destination_def)
  have bad: "parse_reference ''$'Sheet1'!$A$2'' = None
    \<and> parse_reference ''$'Sheet1'!$B$2'' = None
    \<and> parse_reference ''$'Sheet1'!$A$5:$C$10'' = None"
    by (simp add: parse_reference_def split_sheet_def)
  have good: "parse_reference '''Sheet1'!$A$2'' = Some (''Sheet1'', (''A'', 2), (''A'', 2))
    \<and> parse_reference '''Sheet1'!$B$2'' = Some (''Sheet1'', (''B'', 2), (''B'', 2))
    \<and> parse_reference '''Sheet1'!$A$5:$C$10'' = Some (''Sheet1'', (''A'', 5), (''C'', 10))"
    by (simp add: parse_reference_def split_sheet_def absolute_coordinate_def is_letter_def
        is_digit_def upper_def int_of_digits_def digit_value_def)
  from built names bad good show ?thesis
    by (intro exI [of _ wb] conjI) simp_all
qed

subsection \<open>Registering a name twice\<close>

lemma dict_get_after_set: "dict_get (dict_set d k v) k = Some v"
  by (induction d) auto

lemma dict_get_after_set_other: "k' \<noteq> k \<Longrightarrow> dict_get (dict_set d k v) k' = dict_get d k'"
  by (induction d) auto

lemma dict_keys_after_overwrite:
  "dict_get d k = Some old \<Longrightarrow> dict_keys (dict_set d k v) = dict_keys d"
  by (induction d) (auto simp: dict_keys_def split: if_splits)

text \<open>
  C4. Registering a defined name under a key that is already registered raises nothing:
  the new defined name replaces the old one under that key, the keys of the dictionary
  (and their order) stay as they were, so no second entry appears, and every other
  name keeps its defined name.
\<close>

theorem registering_present_name_overwrites:
  assumes "dict_get (defined_names wb) key = Some old" and "name dn = key"
  shows "\<exists>wb'. register_name key dn wb = Inr wb'
    \<and> dict_get (defined_names wb') key = Some dn
    \<and> dict_keys (defined_names wb') = dict_keys (defined_names wb)
    \<and> (\<forall>k. k \<noteq> key \<longrightarrow> dict_get (defined_names wb') k = dict_get (defined_names wb) k)
    \<and> worksheets wb' = worksheets wb"
proof -
  let ?wb' = "wb\<lparr>defined_names := dict_set (defined_names wb) key dn\<rparr>"
  from assms(2) have "register_name key dn wb = Inr ?wb'"
    by (simp add: register_name_def defined_names_setitem_def bind_result_def)
  moreover have "dict_get (defined_names ?wb') key = Some dn"
    by (simp add: dict_get_after_set)
  moreover from assms(1) have "dict_keys (defined_names ?wb') = dict_keys (defined_names wb)"
    by (simp add: dict_keys_after_overwrite)
  moreover have "\<forall>k. k \<noteq> key \<longrightarrow> dict_get (defined_names ?wb') k = dict_get (defined_names wb) k"
    by (simp add: dict_get_after_set_other)
  moreover have "worksheets ?wb' = worksheets wb"
    by simp
  ultimately show ?thesis
    by (intro exI [of _ ?wb'] conjI)
qed

theorem registering_present_name_overwrites_witness:
  "dict_get (defined_names
       \<lparr>worksheets = [], active = 0,
        defined_names = [(''customerName'', DefinedName_init ''customerName'' ''first''),
                         (''items'', DefinedName_init ''items'' ''second'')]\<rparr>)
     ''customerName'' = Some (DefinedName_init ''customerName'' ''first'')
   \<and> name (DefinedName_init ''customerName'' ''third'') = ''customerName''
   \<and> (\<exists>wb'. register_name ''customerName'' (DefinedName_init ''customerName'' ''third'')
          \<lparr>worksheets = [], active = 0,
           defined_names = [(''customerName'', DefinedName_init ''customerName'' ''first''),
                            (''items'', DefinedName_init ''items'' ''second'')]\<rparr> = Inr wb'
        \<and> dict_get (defined_names wb') ''customerName''
            = Some (DefinedName_init ''customerName'' ''third'')
        \<and> dict_keys (defined_names wb') = [''customerName'', ''items''])"
proof -
  let ?wb = "\<lparr>worksheets = [], active = 0,
        defined_names = [(''customerName'', DefinedName_init ''customerName'' ''first''),
                         (''items'', DefinedName_init ''items'' ''second'')]\<rparr>"
  have present: "dict_get (defined_names ?wb) ''customerName''
      = Some (DefinedName_init ''customerName'' ''first'')"
    by simp
  have same: "name (DefinedName_init ''customerName'' ''third'') = ''customerName''"
    by (simp add: DefinedName_init_def)
  have keys: "dict_keys (defined_names ?wb) = [''customerName'', ''items'']"
    by (simp add: dict_keys_def)
  from registering_present_name_overwrites [OF present same] keys present same
  show ?thesis by auto
qed

subsection \<open>The summary and the directory\<close>

text \<open>
  C5, as the script behaves. The summary is printed only after the save has succeeded: a
  run that raises while building, making the directory or saving prints nothing. A run
  that raises nothing has printed all eight lines. Printing itself can raise, and then
  the lines printed before stay: a run that raises has printed the first \<open>n\<close> lines
  of the summary for some \<open>n\<close> below eight (none when the first line is refused), and
  the saved file is in place whenever a line was printed.
\<close>

theorem summary_only_after_save:
  "(let summary =
          [CHR 0xE2 # CHR 0x9C # CHR 0x93 #
             '' Created: config-repo/common-templates/templates/example.xlsx'',
           ''  - Named range 'customerName' -> A2 (FreeMarker: ${customerName})'',
           ''  - Named range 'orderDate' -> B2 (FreeMarker: ${orderDate})'',
           ''  - Named range 'items' -> A5:C10 (table area)'',
           [],
           ''Next: call the API endpoints:'',
           ''  1. POST /api/documents/fill-excel'',
           ''  2. POST /api/documents/verify-excel''];
        run = create_example_excel fs
    in (case raised run of
          None \<Rightarrow> stdout run = summary
        | Some e \<Rightarrow> \<exists>n<8. stdout run = take n summary)
       \<and> (stdout run = [] \<and> raised run \<noteq> None
            \<or> (\<exists>wb fs1. build_workbook = Inr wb
                  \<and> makedirs output_dir True fs = (fs1, None)
                  \<and> save wb output_path fs1 = Inr (filesys run)
                  \<and> load_workbook output_path (filesys run) = Some (written_workbook wb))))"
proof -
  let ?summary = "[CHR 0xE2 # CHR 0x9C # CHR 0x93 #
             '' Created: config-repo/common-templates/templates/example.xlsx'',
           ''  - Named range 'customerName' -> A2 (FreeMarker: ${customerName})'',
           ''  - Named range 'orderDate' -> B2 (FreeMarker: ${orderDate})'',
           ''  - Named range 'items' -> A5:C10 (table area)'',
           [],
           ''Next: call the API endpoints:'',
           ''  1. POST /api/documents/fill-excel'',
           ''  2. POST /api/documents/verify-excel'']"
  let ?run = "create_example_excel fs"
  have lines: "case raised ?run of
          None \<Rightarrow> stdout ?run = ?summary
        | Some e \<Rightarrow> \<exists>n<8. stdout ?run = take n ?summary"
    and saved: "stdout ?run = [] \<and> raised ?run \<noteq> None
            \<or> (\<exists>wb fs1. build_workbook = Inr wb
                  \<and> makedirs output_dir True fs = (fs1, None)
                  \<and> save wb output_path fs1 = Inr (filesys ?run)
                  \<and> load_workbook output_path (filesys ?run) = Some (written_workbook wb))"
  proof -
    obtain wb where built: "build_workbook = Inr wb"
      using build_workbook_succeeds by blast
    obtain fs1 r where md: "makedirs output_dir True fs = (fs1, r)"
      by (cases "makedirs output_dir True fs")
    consider (early) e where "?run = \<lparr>filesys = fs1, stdout = [], raised = Some e\<rparr>"
      | (late) fs2 where "r = None" and "save wb output_path fs1 = Inr fs2"
      unfolding run_unfold [OF built md]
      by (cases r; cases "save wb output_path fs1") auto
    then have "(case raised ?run of
          None \<Rightarrow> stdout ?run = ?summary
        | Some e \<Rightarrow> \<exists>n<8. stdout ?run = take n ?summary)
       \<and> (stdout ?run = [] \<and> raised ?run \<noteq> None
            \<or> (\<exists>wb fs1. build_workbook = Inr wb
                  \<and> makedirs output_dir True fs = (fs1, None)
                  \<and> save wb output_path fs1 = Inr (filesys ?run)
                  \<and> load_workbook output_path (filesys ?run) = Some (written_workbook wb)))"
    proof cases
      case early
      then show ?thesis
        by (auto intro: exI [of _ 0])
    next
      case late
      from md late(1) have md': "makedirs output_dir True fs = (fs1, None)"
        by simp
      note facts = run_saved [OF built md' late(2)]
      have "case raised ?run of
          None \<Rightarrow> stdout ?run = ?summary
        | Some e \<Rightarrow> \<exists>n<8. stdout ?run = take n ?summary"
        unfolding facts(1) by (rule report_outcome)
      moreover from built md' late(2) facts(2,3)
      have "\<exists>wb fs1. build_workbook = Inr wb
                  \<and> makedirs output_dir True fs = (fs1, None)
                  \<and> save wb output_path fs1 = Inr (filesys ?run)
                  \<and> load_workbook output_path (filesys ?run) = Some (written_workbook wb)"
        by (intro exI [of _ wb] exI [of _ fs1] conjI) simp_all
      ultimately show ?thesis by blast
    qed
    then show "case raised ?run of
          None \<Rightarrow> stdout ?run = ?summary
        | Some e \<Rightarrow> \<exists>n<8. stdout ?run = take n ?summary"
      and "stdout ?run = [] \<and> raised ?run \<noteq> None
            \<or> (\<exists>wb fs1. build_workbook = Inr wb
                  \<and> makedirs output_dir True fs = (fs1, None)
                  \<and> save wb output_path fs1 = Inr (filesys ?run)
                  \<and> load_workbook output_path (filesys ?run) = Some (written_workbook wb))"
      by blast+
  qed
  from lines saved show ?thesis
    unfolding Let_def by (rule conjI)
qed

theorem summary_only_after_save_witness:
  "raised (create_example_excel empty_fs) = None
   \<and> length (stdout (create_example_excel empty_fs)) = 8
   \<and> (\<exists>wb. load_workbook output_path (filesys (create_example_excel empty_fs)) = Some wb)
   \<and> raised (create_example_excel readonly_fs) = Some PermissionError
   \<and> stdout (create_example_excel readonly_fs) = []
   \<and> raised (create_example_excel ascii_stdout_fs) = Some UnicodeEncodeError
   \<and> stdout (create_example_excel ascii_stdout_fs) = []
   \<and> (\<exists>wb. load_workbook output_path (filesys (create_example_excel ascii_stdout_fs)) = Some wb)"
proof -
  from summary_only_after_save [of empty_fs] run_on_empty_fs
  have a: "length (stdout (create_example_excel empty_fs)) = 8
    \<and> (\<exists>wb. load_workbook output_path (filesys (create_example_excel empty_fs)) = Some wb)"
    unfolding Let_def by auto
  from a run_on_empty_fs run_on_readonly_fs run_on_ascii_stdout_fs show ?thesis
    by simp
qed

text \<open>
  The claim as it stands fails where standard output goes away after the first line: the
  run ends with an error, and one line of the summary has been printed.
\<close>

theorem summary_cut_short_counterexample:
  "raised (create_example_excel hangup_fs) = Some OSError
   \<and> stdout (create_example_excel hangup_fs) =
       [CHR 0xE2 # CHR 0x9C # CHR 0x93 #
          '' Created: config-repo/common-templates/templates/example.xlsx'']
   \<and> (\<exists>wb. load_workbook output_path (filesys (create_example_excel hangup_fs)) = Some wb)"
  using run_on_hangup_fs by simp

text \<open>
  C6. The directory step \<^verbatim>\<open>os.makedirs(output_dir, exist_ok=True)\<close>. When the directory
  config-repo/common-templates/templates is there, the step changes nothing and raises
  nothing. When the step raises nothing, the directory and both its parents are
  directories afterwards, what was there before is still there, and nothing but these
  three paths has changed. And the step raises nothing whenever each of the three paths
  is a directory already, or is absent and may be created.
\<close>

theorem output_directory_step:
  "components output_dir = [''config-repo'', ''common-templates'', ''templates'']
   \<and> (isdir fs (components output_dir) \<longrightarrow> makedirs output_dir True fs = (fs, None))
   \<and> (snd (makedirs output_dir True fs) = None \<longrightarrow>
        isdir (fst (makedirs output_dir True fs)) [''config-repo'']
        \<and> isdir (fst (makedirs output_dir True fs)) [''config-repo'', ''common-templates'']
        \<and> isdir (fst (makedirs output_dir True fs)) (components output_dir)
        \<and> denied (fst (makedirs output_dir True fs)) = denied fs
        \<and> (\<forall>p n. nodes fs p = Some n \<longrightarrow> nodes (fst (makedirs output_dir True fs)) p = Some n)
        \<and> (\<forall>p. p \<notin> {[''config-repo''], [''config-repo'', ''common-templates''],
                      [''config-repo'', ''common-templates'', ''templates'']}
              \<longrightarrow> nodes (fst (makedirs output_dir True fs)) p = nodes fs p))
   \<and> ((\<forall>q \<in> {[''config-repo''], [''config-repo'', ''common-templates''],
                [''config-repo'', ''common-templates'', ''templates'']}.
          isdir fs q \<or> (nodes fs q = None \<and> \<not> denied fs q))
        \<longrightarrow> snd (makedirs output_dir True fs) = None)"
proof (intro conjI impI)
  show "components output_dir = [''config-repo'', ''common-templates'', ''templates'']"
    by (rule components_output_dir)
next
  assume "isdir fs (components output_dir)"
  then show "makedirs output_dir True fs = (fs, None)"
    by (simp add: makedirs_def components_output_dir makedirs_existing)
next
  assume ok: "snd (makedirs output_dir True fs) = None"
  obtain fs1 where md: "makedirs_path fs [''config-repo'', ''common-templates'', ''templates''] True
      = (fs1, None)"
    using ok by (cases "makedirs output_dir True fs") (simp add: makedirs_def components_output_dir)
  have fst_eq: "fst (makedirs output_dir True fs) = fs1"
    by (simp add: makedirs_def components_output_dir md)
  note post = makedirs_created [OF md]
  show "isdir (fst (makedirs output_dir True fs)) [''config-repo'']"
    and "isdir (fst (makedirs output_dir True fs)) [''config-repo'', ''common-templates'']"
    and "isdir (fst (makedirs output_dir True fs)) (components output_dir)"
    and "denied (fst (makedirs output_dir True fs)) = denied fs"
    and "\<forall>p n. nodes fs p = Some n \<longrightarrow> nodes (fst (makedirs output_dir True fs)) p = Some n"
    and "\<forall>p. p \<notin> {[''config-repo''], [''config-repo'', ''common-templates''],
                      [''config-repo'', ''common-templates'', ''templates'']}
              \<longrightarrow> nodes (fst (makedirs output_dir True fs)) p = nodes fs p"
    unfolding fst_eq components_output_dir using post by blast+
next
  assume "\<forall>q \<in> {[''config-repo''], [''config-repo'', ''common-templates''],
                [''config-repo'', ''common-templates'', ''templates'']}.
          isdir fs q \<or> (nodes fs q = None \<and> \<not> denied fs q)"
  then show "snd (makedirs output_dir True fs) = None"
    by (auto simp: makedirs_def components_output_dir makedirs_unfold fs_defs
        split: option.splits node.splits if_splits)
qed

theorem output_directory_step_witness:
  "\<not> isdir empty_fs (components output_dir)
   \<and> snd (makedirs output_dir True empty_fs) = None
   \<and> isdir (fst (makedirs output_dir True empty_fs)) (components output_dir)
   \<and> makedirs output_dir True (fst (makedirs output_dir True empty_fs))
       = (fst (makedirs output_dir True empty_fs), None)"
proof -
  have absent: "\<not> isdir empty_fs (components output_dir)"
    by (simp add: components_output_dir fs_defs empty_fs_def)
  have clear: "\<forall>q \<in> {[''config-repo''], [''config-repo'', ''common-templates''],
                [''config-repo'', ''common-templates'', ''templates'']}.
          isdir empty_fs q \<or> (nodes empty_fs q = None \<and> \<not> denied empty_fs q)"
    by (simp add: empty_fs_def)
  from output_directory_step [of empty_fs] clear
  have ok: "snd (makedirs output_dir True empty_fs) = None"
    by blast
  with output_directory_step [of empty_fs]
  have made: "isdir (fst (makedirs output_dir True empty_fs)) (components output_dir)"
    by blast
  with output_directory_step [of "fst (makedirs output_dir True empty_fs)"]
  have "makedirs output_dir True (fst (makedirs output_dir True empty_fs))
       = (fst (makedirs output_dir True empty_fs), None)"
    by blast
  with absent ok made show ?thesis by blast
qed

subsection \<open>Running twice\<close>

lemma stat_stdout_refusal: "stat (fs\<lparr>stdout_refusal := c\<rparr>) p = stat fs p"
  by (simp add: stat_def)

text \<open>
  C8. The script reads nothing but the system it writes to. A run that succeeded leaves
  a spreadsheet file at the output path. A second run from the state the first one left
  succeeds too, prints the same, and leaves a file there that opens to the same
  workbook: the same cells with the same values and styles, the same widths, the same
  defined names. The file of the second run is the same even when its standard output
  behaves differently, and any successful run, from whatever state, leaves that workbook.
\<close>

theorem second_run_reproduces_first:
  assumes "raised (create_example_excel fs) = None"
  shows "\<exists>wb. load_workbook output_path (filesys (create_example_excel fs)) = Some wb
    \<and> raised (create_example_excel (filesys (create_example_excel fs))) = None
    \<and> stdout (create_example_excel (filesys (create_example_excel fs)))
        = stdout (create_example_excel fs)
    \<and> load_workbook output_path
          (filesys (create_example_excel (filesys (create_example_excel fs)))) = Some wb
    \<and> (\<forall>c. load_workbook output_path
            (filesys (create_example_excel
               ((filesys (create_example_excel fs))\<lparr>stdout_refusal := c\<rparr>))) = Some wb)
    \<and> (\<forall>fs'. raised (create_example_excel fs') = None \<longrightarrow>
          load_workbook output_path (filesys (create_example_excel fs')) = Some wb)"
proof -
  from assms have "stdout (create_example_excel fs) \<noteq> [] \<or> raised (create_example_excel fs) = None"
    by simp
  from run_printing [OF this] obtain wb fs1 where
    built: "build_workbook = Inr wb" and md: "makedirs output_dir True fs = (fs1, None)"
    and sv: "save wb output_path fs1 = Inr (filesys (create_example_excel fs))"
    by blast
  let ?fs2 = "filesys (create_example_excel fs)"
  note first = run_saved [OF built md sv]
  from md have "makedirs_path fs [''config-repo'', ''common-templates'', ''templates''] True
      = (fs1, None)"
    by (simp add: makedirs_def components_output_dir)
  from makedirs_created [OF this]
  have dir1: "isdir fs1 [''config-repo'', ''common-templates'', ''templates'']"
    by blast
  from sv have fs2: "?fs2 = fs1\<lparr>nodes := (nodes fs1)(components output_path \<mapsto>
        RegularFile (Spreadsheet (written_workbook wb)))\<rparr>"
    and allowed: "\<not> denied fs1 (components output_path)"
    by (auto simp: save_def Let_def components_output_path
        split: option.splits node.splits if_splits)
  have both: "create_example_excel (?fs2\<lparr>stdout_refusal := c\<rparr>)
        = report \<lparr>filesys = ?fs2\<lparr>stdout_refusal := c\<rparr>, stdout = [], raised = None\<rparr>
      \<and> load_workbook output_path (filesys (create_example_excel (?fs2\<lparr>stdout_refusal := c\<rparr>)))
        = Some (written_workbook wb)" for c
  proof -
    let ?s = "?fs2\<lparr>stdout_refusal := c\<rparr>"
    from dir1 have "isdir ?s [''config-repo'', ''common-templates'', ''templates'']"
      unfolding fs2 by (auto simp: components_output_path fs_defs split: if_splits)
    then have md2: "makedirs output_dir True ?s = (?s, None)"
      by (simp add: makedirs_def components_output_dir makedirs_existing)
    from dir1 allowed have sv2: "save wb output_path ?s = Inr ?s"
      unfolding fs2 by (auto simp: save_def components_output_path fs_defs split: if_splits)
    from run_saved(1,3) [OF built md2 sv2] show ?thesis
      by (intro conjI)
  qed
  have same_state: "?fs2\<lparr>stdout_refusal := stdout_refusal ?fs2\<rparr> = ?fs2"
    by simp
  from both [of "stdout_refusal ?fs2"] first(1,2)
  have rerun: "create_example_excel ?fs2 = create_example_excel fs"
    unfolding same_state by simp
  from both have again: "load_workbook output_path
      (filesys (create_example_excel (?fs2\<lparr>stdout_refusal := c\<rparr>)))
        = Some (written_workbook wb)" for c
    by (rule conjunct2)
  have others: "\<forall>fs'. raised (create_example_excel fs') = None \<longrightarrow>
          load_workbook output_path (filesys (create_example_excel fs'))
            = Some (written_workbook wb)"
    using successful_run_loads [OF built] by blast
  from first(3) rerun assms again others show ?thesis
    by (intro exI [of _ "written_workbook wb"] conjI allI) simp_all
qed

theorem second_run_reproduces_first_witness:
  "raised (create_example_excel empty_fs) = None
   \<and> raised (create_example_excel fs_with_prior_file) = None
   \<and> (\<exists>wb. load_workbook output_path (filesys (create_example_excel empty_fs)) = Some wb
        \<and> raised (create_example_excel (filesys (create_example_excel empty_fs))) = None
        \<and> load_workbook output_path
              (filesys (create_example_excel (filesys (create_example_excel empty_fs)))) = Some wb
        \<and> load_workbook output_path
              (filesys (create_example_excel
                 ((filesys (create_example_excel empty_fs))
                    \<lparr>stdout_refusal := stdout_refusal hangup_fs\<rparr>))) = Some wb
        \<and> load_workbook output_path (filesys (create_example_excel fs_with_prior_file)) = Some wb)"
  using second_run_reproduces_first [OF run_on_empty_fs] run_on_empty_fs run_on_fs_with_prior_file
  by blast

end
